theory Spec2Isabelle
  imports Main "HOL-Library.Word"
begin

section \<open>The GPIO lower half over an I/O expander pin\<close>

text \<open>
  A shallow embedding of \<^verbatim>\<open>drivers/ioexpander/gpio_lower_half.c\<close>: the driver state
  \<^verbatim>\<open>struct gplh_dev_s\<close>, the interrupt handler \<^verbatim>\<open>gplh_handler\<close>, the four
  interface methods \<^verbatim>\<open>gplh_read\<close>, \<^verbatim>\<open>gplh_write\<close>, \<^verbatim>\<open>gplh_attach\<close>,
  \<^verbatim>\<open>gplh_enable\<close> and the constructor \<^verbatim>\<open>gpio_lower_half\<close>.

  Pointers are \<open>addr option\<close> with \<open>None\<close> for \<^verbatim>\<open>NULL\<close>; the driver instances live
  in a store from addresses to records. The I/O expander, the consumer's callbacks, the
  allocator and the pin registration are collaborators outside the file: their behaviour
  is a parameter (\<open>env\<close>) acting on a state of their own, and every call made to them is
  appended to a log, so that the number and the arguments of the calls can be stated.
  The debug output (\<^verbatim>\<open>gpioinfo\<close>, \<^verbatim>\<open>gpiowarn\<close>, \<^verbatim>\<open>gpioerr\<close>) changes nothing and
  is left out.
\<close>

subsection \<open>Data\<close>

type_synonym addr = nat
type_synonym ioe_handle = nat
type_synonym pin_interrupt_t = nat

text \<open>
  The functions of this file that are passed around as function pointers: the members of
  the operation table and the handler given to the expander.
\<close>

datatype gplh_function = Gplh_read | Gplh_write | Gplh_attach | Gplh_enable | Gplh_handler

record gpio_operations_s =
  go_read :: gplh_function
  go_write :: gplh_function
  go_attach :: gplh_function
  go_enable :: gplh_function

definition g_gplh_ops :: gpio_operations_s where
  "g_gplh_ops =
     \<lparr>go_read = Gplh_read, go_write = Gplh_write,
      go_attach = Gplh_attach, go_enable = Gplh_enable\<rparr>"

text \<open>
  \<^verbatim>\<open>struct gpio_dev_s\<close> is declared in a header outside the file; the two members the
  driver writes are kept.
\<close>

record gpio_dev_s =
  gp_pintype :: "8 word"
  gp_ops :: "gpio_operations_s option"

record gplh_dev_s =
  gpio :: gpio_dev_s
  pin :: "8 word"
  ioe :: "addr option"
  handle :: "ioe_handle option"
  callback :: "pin_interrupt_t option"

text \<open>What \<^verbatim>\<open>kmm_zalloc\<close> hands out: every member zero, every pointer \<^verbatim>\<open>NULL\<close>.\<close>

definition gplh_zero :: gplh_dev_s where
  "gplh_zero =
     \<lparr>gpio = \<lparr>gp_pintype = 0, gp_ops = None\<rparr>,
      pin = 0, ioe = None, handle = None, callback = None\<rparr>"

text \<open>
  The calls that leave the file. \<open>'s\<close> is the type \<^verbatim>\<open>ioe_pinset_t\<close>, an unsigned
  integer whose width the configuration chooses: the functions below take it as
  \<open>'w word\<close>.
\<close>

datatype 's call =
    ReadPin addr "8 word"
  | WritePin addr "8 word" bool
  | Attach addr 's gplh_function addr
  | Detach addr ioe_handle
  | Callback pin_interrupt_t addr
  | Zalloc
  | Free addr
  | Register addr gpio_dev_s int

record ('s, 'x) world =
  heap :: "addr \<rightharpoonup> gplh_dev_s"
  calls :: "'s call list"
  ext :: 'x

text \<open>
  The collaborators. \<open>ioe_readpin\<close> returns the status and what it stored through the
  \<^verbatim>\<open>value\<close> pointer, if anything. \<open>CONFIG_IOEXPANDER_NPINS\<close> and \<open>GPIO_NPINTYPES\<close>
  are the two constants of the constructor's assertion.
\<close>

record ('s, 'x) env =
  ioe_readpin :: "addr \<Rightarrow> 8 word \<Rightarrow> 'x \<Rightarrow> (int \<times> bool option) \<times> 'x"
  ioe_writepin :: "addr \<Rightarrow> 8 word \<Rightarrow> bool \<Rightarrow> 'x \<Rightarrow> int \<times> 'x"
  ioe_attach :: "addr \<Rightarrow> 's \<Rightarrow> gplh_function \<Rightarrow> addr \<Rightarrow> 'x \<Rightarrow> ioe_handle option \<times> 'x"
  ioe_detach :: "addr \<Rightarrow> ioe_handle \<Rightarrow> 'x \<Rightarrow> int \<times> 'x"
  pin_interrupt :: "pin_interrupt_t \<Rightarrow> addr \<Rightarrow> 'x \<Rightarrow> int \<times> 'x"
  zalloc :: "'x \<Rightarrow> addr option \<times> 'x"
  mm_free :: "addr \<Rightarrow> 'x \<Rightarrow> 'x"
  pin_register :: "gpio_dev_s \<Rightarrow> addr \<Rightarrow> int \<Rightarrow> 'x \<Rightarrow> int \<times> 'x"
  CONFIG_IOEXPANDER_NPINS :: nat
  GPIO_NPINTYPES :: nat

text \<open>
  A failed \<^verbatim>\<open>DEBUGASSERT\<close> stops the system; so does following a pointer to no
  driver instance. Neither returns to the caller. The assertions are modelled as they are
  written, that is, as compiled in; a method that is past its assertion never follows a
  null pointer.
\<close>

datatype fault = AssertionFailed | BadPointer

text \<open>
  The status codes of \<^verbatim>\<open>errno.h\<close>, which is outside the file: \<open>EPERM\<close> is the
  spec's PermissionDenied, \<open>EIO\<close> its IOError, \<open>ENOMEM\<close> its OutOfMemory. The
  functions return them negated.
\<close>

definition OK :: int where "OK = 0"
definition EPERM :: int where "EPERM = 1"
definition EIO :: int where "EIO = 5"
definition ENOMEM :: int where "ENOMEM = 12"

subsection \<open>Calls to the collaborators\<close>

definition log_call :: "'s call \<Rightarrow> 'x \<Rightarrow> ('s, 'x) world \<Rightarrow> ('s, 'x) world" where
  "log_call c x w = w\<lparr>calls := calls w @ [c], ext := x\<rparr>"

definition IOEXP_READPIN ::
  "('s, 'x) env \<Rightarrow> addr \<Rightarrow> 8 word \<Rightarrow> ('s, 'x) world \<Rightarrow> (int \<times> bool option) \<times> ('s, 'x) world" where
  "IOEXP_READPIN env dev p w =
     (case ioe_readpin env dev p (ext w) of (r, x) \<Rightarrow> (r, log_call (ReadPin dev p) x w))"

definition IOEXP_WRITEPIN ::
  "('s, 'x) env \<Rightarrow> addr \<Rightarrow> 8 word \<Rightarrow> bool \<Rightarrow> ('s, 'x) world \<Rightarrow> int \<times> ('s, 'x) world" where
  "IOEXP_WRITEPIN env dev p v w =
     (case ioe_writepin env dev p v (ext w) of (r, x) \<Rightarrow> (r, log_call (WritePin dev p v) x w))"

definition IOEP_ATTACH ::
  "('s, 'x) env \<Rightarrow> addr \<Rightarrow> 's \<Rightarrow> gplh_function \<Rightarrow> addr \<Rightarrow> ('s, 'x) world
     \<Rightarrow> ioe_handle option \<times> ('s, 'x) world" where
  "IOEP_ATTACH env dev pinset f arg w =
     (case ioe_attach env dev pinset f arg (ext w) of
        (h, x) \<Rightarrow> (h, log_call (Attach dev pinset f arg) x w))"

definition IOEP_DETACH ::
  "('s, 'x) env \<Rightarrow> addr \<Rightarrow> ioe_handle \<Rightarrow> ('s, 'x) world \<Rightarrow> int \<times> ('s, 'x) world" where
  "IOEP_DETACH env dev h w =
     (case ioe_detach env dev h (ext w) of (r, x) \<Rightarrow> (r, log_call (Detach dev h) x w))"

definition invoke_callback ::
  "('s, 'x) env \<Rightarrow> pin_interrupt_t \<Rightarrow> addr \<Rightarrow> ('s, 'x) world \<Rightarrow> int \<times> ('s, 'x) world" where
  "invoke_callback env cb dev w =
     (case pin_interrupt env cb dev (ext w) of (r, x) \<Rightarrow> (r, log_call (Callback cb dev) x w))"

text \<open>\<^verbatim>\<open>kmm_zalloc\<close>: \<^verbatim>\<open>NULL\<close>, or the address of a zeroed instance.\<close>

definition kmm_zalloc :: "('s, 'x) env \<Rightarrow> ('s, 'x) world \<Rightarrow> addr option \<times> ('s, 'x) world" where
  "kmm_zalloc env w =
     (case zalloc env (ext w) of
        (None, x) \<Rightarrow> (None, log_call Zalloc x w)
      | (Some p, x) \<Rightarrow> (Some p, log_call Zalloc x (w\<lparr>heap := (heap w)(p \<mapsto> gplh_zero)\<rparr>)))"

definition kmm_free :: "('s, 'x) env \<Rightarrow> addr \<Rightarrow> ('s, 'x) world \<Rightarrow> ('s, 'x) world" where
  "kmm_free env p w =
     log_call (Free p) (mm_free env p (ext w)) (w\<lparr>heap := (heap w)(p := None)\<rparr>)"

text \<open>
  \<^verbatim>\<open>gpio_pin_register\<close> is given the pointer to the embedded \<^verbatim>\<open>gpio\<close> member, which
  is the address of the instance, and can read that member.
\<close>

definition gpio_pin_register ::
  "('s, 'x) env \<Rightarrow> addr \<Rightarrow> int \<Rightarrow> ('s, 'x) world \<Rightarrow> fault + int \<times> ('s, 'x) world" where
  "gpio_pin_register env p minor w =
     (case heap w p of
        None \<Rightarrow> Inl BadPointer
      | Some priv \<Rightarrow>
          (case pin_register env (gpio priv) p minor (ext w) of
             (r, x) \<Rightarrow> Inr (r, log_call (Register p (gpio priv) minor) x w)))"

text \<open>A store through \<^verbatim>\<open>priv->\<close>.\<close>

definition store :: "addr \<Rightarrow> (gplh_dev_s \<Rightarrow> gplh_dev_s) \<Rightarrow> ('s, 'x) world \<Rightarrow> ('s, 'x) world" where
  "store p f w = w\<lparr>heap := (heap w)(p := map_option f (heap w p))\<rparr>"

subsection \<open>The interrupt handler and the four interface methods\<close>

definition gplh_handler ::
  "('s, 'x) env \<Rightarrow> addr option \<Rightarrow> 's \<Rightarrow> addr option \<Rightarrow> ('s, 'x) world
     \<Rightarrow> fault + int \<times> ('s, 'x) world" where
  "gplh_handler env dev pinset arg w =
     (case arg of
        None \<Rightarrow> Inl AssertionFailed
      | Some p \<Rightarrow>
          (case heap w p of
             None \<Rightarrow> Inl BadPointer
           | Some priv \<Rightarrow>
               (case callback priv of
                  None \<Rightarrow> Inl AssertionFailed
                | Some cb \<Rightarrow> Inr (invoke_callback env cb p w))))"

definition gplh_read ::
  "('s, 'x) env \<Rightarrow> addr option \<Rightarrow> ('s, 'x) world
     \<Rightarrow> fault + (int \<times> bool option) \<times> ('s, 'x) world" where
  "gplh_read env gpio_p w =
     (case gpio_p of
        None \<Rightarrow> Inl AssertionFailed
      | Some p \<Rightarrow>
          (case heap w p of
             None \<Rightarrow> Inl BadPointer
           | Some priv \<Rightarrow>
               (case ioe priv of
                  None \<Rightarrow> Inl AssertionFailed
                | Some dev \<Rightarrow> Inr (IOEXP_READPIN env dev (pin priv) w))))"

definition gplh_write ::
  "('s, 'x) env \<Rightarrow> addr option \<Rightarrow> bool \<Rightarrow> ('s, 'x) world \<Rightarrow> fault + int \<times> ('s, 'x) world" where
  "gplh_write env gpio_p v w =
     (case gpio_p of
        None \<Rightarrow> Inl AssertionFailed
      | Some p \<Rightarrow>
          (case heap w p of
             None \<Rightarrow> Inl BadPointer
           | Some priv \<Rightarrow>
               (case ioe priv of
                  None \<Rightarrow> Inl AssertionFailed
                | Some dev \<Rightarrow> Inr (IOEXP_WRITEPIN env dev (pin priv) v w))))"

definition gplh_attach ::
  "('s, 'x) env \<Rightarrow> addr option \<Rightarrow> pin_interrupt_t option \<Rightarrow> ('s, 'x) world
     \<Rightarrow> fault + int \<times> ('s, 'x) world" where
  "gplh_attach env gpio_p cb w =
     (case gpio_p of
        None \<Rightarrow> Inl AssertionFailed
      | Some p \<Rightarrow>
          (case heap w p of
             None \<Rightarrow> Inl BadPointer
           | Some priv \<Rightarrow>
               (case ioe priv of
                  None \<Rightarrow> Inl AssertionFailed
                | Some dev \<Rightarrow>
                    let w1 =
                      (case handle priv of
                         None \<Rightarrow> w
                       | Some h \<Rightarrow>
                           store p (\<lambda>d. d\<lparr>handle := None\<rparr>) (snd (IOEP_DETACH env dev h w)))
                    in Inr (OK, store p (\<lambda>d. d\<lparr>callback := cb\<rparr>) w1))))"

text \<open>
  The pin set of \<^verbatim>\<open>gplh_enable\<close> is \<^verbatim>\<open>(ioe_pinset_t)1 << priv->pin\<close>. For a pin
  below the width of \<^verbatim>\<open>ioe_pinset_t\<close> that is the word with the one bit \<open>pin\<close>; the
  constructor asserts \<open>pin < CONFIG_IOEXPANDER_NPINS\<close>, and the configuration gives
  \<^verbatim>\<open>ioe_pinset_t\<close> at least that many bits. Beyond the width \<open>push_bit\<close> gives 0, which
  is what C gives after the conversion back to a narrow \<^verbatim>\<open>ioe_pinset_t\<close>, and C leaves
  the shift undefined from the width of \<^verbatim>\<open>int\<close> on.
\<close>

definition gplh_enable ::
  "('w::len word, 'x) env \<Rightarrow> addr option \<Rightarrow> bool \<Rightarrow> ('w word, 'x) world
     \<Rightarrow> fault + int \<times> ('w word, 'x) world" where
  "gplh_enable env gpio_p enable w =
     (case gpio_p of
        None \<Rightarrow> Inl AssertionFailed
      | Some p \<Rightarrow>
          (case heap w p of
             None \<Rightarrow> Inl BadPointer
           | Some priv \<Rightarrow>
               (case ioe priv of
                  None \<Rightarrow> Inl AssertionFailed
                | Some dev \<Rightarrow>
                    if enable then
                      (if callback priv = None then Inr (- EPERM, w)
                       else if handle priv = None then
                         (case IOEP_ATTACH env dev (push_bit (unat (pin priv)) 1)
                                 Gplh_handler p w of
                            (h, w1) \<Rightarrow>
                              let w2 = store p (\<lambda>d. d\<lparr>handle := h\<rparr>) w1
                              in if h = None then Inr (- EIO, w2) else Inr (OK, w2))
                       else Inr (OK, w))
                    else
                      (case handle priv of
                         None \<Rightarrow> Inr (OK, w)
                       | Some h \<Rightarrow>
                           (case IOEP_DETACH env dev h w of
                              (ret, w1) \<Rightarrow>
                                Inr (ret, store p (\<lambda>d. d\<lparr>handle := None\<rparr>) w1))))))"

subsection \<open>The constructor\<close>

text \<open>
  \<^verbatim>\<open>pin\<close> is an \<^verbatim>\<open>unsigned int\<close> and \<^verbatim>\<open>pintype\<close> an enumeration compared as one;
  both are stored as \<^verbatim>\<open>uint8_t\<close>. The parameter \<^verbatim>\<open>ioe\<close> is asserted non-null and
  not used again.
\<close>

definition gpio_lower_half ::
  "('s, 'x) env \<Rightarrow> addr option \<Rightarrow> 32 word \<Rightarrow> 32 word \<Rightarrow> int \<Rightarrow> ('s, 'x) world
     \<Rightarrow> fault + int \<times> ('s, 'x) world" where
  "gpio_lower_half env ioe_p pin_n pintype minor w =
     (if \<not> (ioe_p \<noteq> None \<and> unat pin_n < CONFIG_IOEXPANDER_NPINS env
              \<and> unat pintype < GPIO_NPINTYPES env)
      then Inl AssertionFailed
      else
        (case kmm_zalloc env w of
           (None, w1) \<Rightarrow> Inr (- ENOMEM, w1)
         | (Some p, w1) \<Rightarrow>
             let w2 = store p (\<lambda>d. d\<lparr>pin := ucast pin_n\<rparr>) w1;
                 w3 = store p (\<lambda>d. d\<lparr>gpio := (gpio d)\<lparr>gp_pintype := ucast pintype\<rparr>\<rparr>) w2;
                 w4 = store p (\<lambda>d. d\<lparr>gpio := (gpio d)\<lparr>gp_ops := Some g_gplh_ops\<rparr>\<rparr>) w3
             in (case gpio_pin_register env p minor w4 of
                   Inl f \<Rightarrow> Inl f
                 | Inr (ret, w5) \<Rightarrow>
                     if ret < 0 then Inr (ret, kmm_free env p w5) else Inr (ret, w5))))"

subsection \<open>Sequences of interface calls\<close>

text \<open>
  The upper half reaches the four methods through the operation table of the instance.
  A request is one such call; a run is a sequence of them on one instance. A fault ends
  the run.
\<close>

datatype gpio_request =
    Read
  | Write bool
  | AttachCallback "pin_interrupt_t option"
  | Enable bool

definition status_dropped :: "fault + 'r \<times> 'a \<Rightarrow> fault + 'a" where
  "status_dropped res = (case res of Inl f \<Rightarrow> Inl f | Inr (r, w) \<Rightarrow> Inr w)"

fun gpio_call ::
  "('w::len word, 'x) env \<Rightarrow> addr \<Rightarrow> gpio_request \<Rightarrow> ('w word, 'x) world
     \<Rightarrow> fault + ('w word, 'x) world" where
  "gpio_call env p Read w = status_dropped (gplh_read env (Some p) w)"
| "gpio_call env p (Write v) w = status_dropped (gplh_write env (Some p) v w)"
| "gpio_call env p (AttachCallback cb) w = status_dropped (gplh_attach env (Some p) cb w)"
| "gpio_call env p (Enable en) w = status_dropped (gplh_enable env (Some p) en w)"

fun gpio_run ::
  "('w::len word, 'x) env \<Rightarrow> addr \<Rightarrow> gpio_request list \<Rightarrow> ('w word, 'x) world
     \<Rightarrow> fault + ('w word, 'x) world" where
  "gpio_run env p [] w = Inr w"
| "gpio_run env p (req # reqs) w =
     (case gpio_call env p req w of Inl f \<Rightarrow> Inl f | Inr w1 \<Rightarrow> gpio_run env p reqs w1)"

text \<open>An interrupt registration is live only with a callback to forward to.\<close>

definition gplh_inv :: "gplh_dev_s \<Rightarrow> bool" where
  "gplh_inv d \<longleftrightarrow> (handle d \<noteq> None \<longrightarrow> callback d \<noteq> None)"

subsection \<open>A small expander to run the model on\<close>

text \<open>
  An eight-pin expander whose state counts the calls it has served. The first flag says
  whether the allocator has memory, the second whether the expander and the registration
  succeed; a failure returns a negated status.
\<close>

definition stub_env :: "bool \<Rightarrow> bool \<Rightarrow> (8 word, nat) env" where
  "stub_env mem_ok io_ok =
     \<lparr>ioe_readpin = (\<lambda>dev p x. (if io_ok then (0, Some True) else (- 5, None), Suc x)),
      ioe_writepin = (\<lambda>dev p v x. (if io_ok then 0 else - 5, Suc x)),
      ioe_attach = (\<lambda>dev pinset f arg x. (if io_ok then Some 7 else None, Suc x)),
      ioe_detach = (\<lambda>dev h x. (if io_ok then 0 else - 5, Suc x)),
      pin_interrupt = (\<lambda>cb dev x. (42, Suc x)),
      zalloc = (\<lambda>x. (if mem_ok then Some 16 else None, Suc x)),
      mm_free = (\<lambda>p x. Suc x),
      pin_register = (\<lambda>g dev minor x. (if io_ok then 0 else - 22, Suc x)),
      CONFIG_IOEXPANDER_NPINS = 8,
      GPIO_NPINTYPES = 3\<rparr>"

definition stub_dev :: "ioe_handle option \<Rightarrow> pin_interrupt_t option \<Rightarrow> gplh_dev_s" where
  "stub_dev h cb =
     \<lparr>gpio = \<lparr>gp_pintype = 2, gp_ops = Some g_gplh_ops\<rparr>,
      pin = 3, ioe = Some 1, handle = h, callback = cb\<rparr>"

definition stub_world :: "gplh_dev_s \<Rightarrow> (8 word, nat) world" where
  "stub_world d = \<lparr>heap = [16 \<mapsto> d], calls = [], ext = 0\<rparr>"

definition empty_world :: "(8 word, nat) world" where
  "empty_world = \<lparr>heap = Map.empty, calls = [], ext = 0\<rparr>"

section \<open>Properties\<close>

lemmas call_defs = IOEXP_READPIN_def IOEXP_WRITEPIN_def IOEP_ATTACH_def IOEP_DETACH_def
  invoke_callback_def log_call_def store_def

lemmas ctor_defs = gpio_lower_half_def kmm_zalloc_def gpio_pin_register_def kmm_free_def
  gplh_zero_def

lemmas stub_defs = stub_env_def stub_dev_def stub_world_def empty_world_def

lemma pinset_single_bit:
  "n < LENGTH('w::len) \<Longrightarrow> bit (push_bit n (1 :: 'w word)) m \<longleftrightarrow> m = n"
  by (auto simp add: bit_simps)

subsection \<open>The constructor\<close>

text \<open>
  What a call of the constructor does once the allocation has succeeded: the instance is
  zeroed, \<open>pin\<close>, the pin type and the operation table are written, and the registration
  sees them. The member \<open>ioe\<close> is written nowhere and stays \<^verbatim>\<open>NULL\<close>.
\<close>

lemma gpio_lower_half_registered:
  assumes "ioe_p \<noteq> None" and "unat pin_n < CONFIG_IOEXPANDER_NPINS env"
    and "unat pintype < GPIO_NPINTYPES env"
    and "zalloc env (ext w) = (Some p, x)"
    and "g = \<lparr>gp_pintype = ucast pintype, gp_ops = Some g_gplh_ops\<rparr>"
    and "pin_register env g p minor x = (ret, x')"
    and "w' = w\<lparr>heap := (heap w)(p \<mapsto> \<lparr>gpio = g, pin = ucast pin_n, ioe = None,
                                         handle = None, callback = None\<rparr>),
                calls := calls w @ [Zalloc, Register p g minor], ext := x'\<rparr>"
  shows "gpio_lower_half env ioe_p pin_n pintype minor w =
           Inr (ret, if ret < 0 then kmm_free env p w' else w')"
  using assms by (simp add: ctor_defs call_defs)

lemma stored_pin_unchanged:
  "unat (pin_n :: 32 word) < 256 \<Longrightarrow> unat (ucast pin_n :: 8 word) = unat pin_n"
  by (simp add: unsigned_ucast_eq take_bit_nat_eq_self)

text \<open>
  C1. The constructor is claimed to store the given expander reference in the instance,
  beside the pin, the pin type and the operation table, before it registers the anchor.
  On an eight-pin expander passed as \<open>Some 1\<close>, with pin 3, pin type 2 and minor 0, the
  allocation and the registration succeeding: the pin, the pin type and the operation
  table are there when the registration is called, but the member \<open>ioe\<close> of the new
  instance is \<^verbatim>\<open>NULL\<close>, and the first read through the instance fails the assertion
  \<^verbatim>\<open>priv->ioe != NULL\<close>.
\<close>

theorem gpio_lower_half_leaves_ioe_null:
  "gpio_lower_half (stub_env True True) (Some 1) 3 2 0 empty_world =
     Inr (0,
          \<lparr>heap = [16 \<mapsto> \<lparr>gpio = \<lparr>gp_pintype = 2, gp_ops = Some g_gplh_ops\<rparr>,
                           pin = 3, ioe = None, handle = None, callback = None\<rparr>],
           calls = [Zalloc, Register 16 \<lparr>gp_pintype = 2, gp_ops = Some g_gplh_ops\<rparr> 0],
           ext = 2\<rparr>)
   \<and> gplh_read (stub_env True True) (Some 16)
         \<lparr>heap = [16 \<mapsto> \<lparr>gpio = \<lparr>gp_pintype = 2, gp_ops = Some g_gplh_ops\<rparr>,
                          pin = 3, ioe = None, handle = None, callback = None\<rparr>],
          calls = [Zalloc, Register 16 \<lparr>gp_pintype = 2, gp_ops = Some g_gplh_ops\<rparr> 0],
          ext = 2\<rparr>
       = Inl AssertionFailed"
  by (simp add: ctor_defs call_defs stub_defs gplh_read_def)

text \<open>
  C8. A call of the constructor that passes its assertion returns \<open>- ENOMEM\<close> when the
  allocation fails, having called nothing but the allocator; and when the registration
  returns a negative status, the instance is freed after the registration and that status
  is returned as it is.
\<close>

theorem gpio_lower_half_errors:
  assumes "ioe_p \<noteq> None" and "unat pin_n < CONFIG_IOEXPANDER_NPINS env"
    and "unat pintype < GPIO_NPINTYPES env"
  shows "(zalloc env (ext w) = (None, x) \<longrightarrow>
            gpio_lower_half env ioe_p pin_n pintype minor w =
              Inr (- ENOMEM, w\<lparr>calls := calls w @ [Zalloc], ext := x\<rparr>))
       \<and> (zalloc env (ext w) = (Some p, x)
            \<and> pin_register env \<lparr>gp_pintype = ucast pintype, gp_ops = Some g_gplh_ops\<rparr>
                  p minor x = (ret, x')
            \<and> ret < 0 \<longrightarrow>
            gpio_lower_half env ioe_p pin_n pintype minor w =
              Inr (ret,
                   w\<lparr>heap := (heap w)(p := None),
                     calls := calls w @
                       [Zalloc,
                        Register p \<lparr>gp_pintype = ucast pintype, gp_ops = Some g_gplh_ops\<rparr> minor,
                        Free p],
                     ext := mm_free env p x'\<rparr>))"
  using assms by (simp add: ctor_defs call_defs)

theorem gpio_lower_half_errors_witness:
  "gpio_lower_half (stub_env False True) (Some 1) 3 2 0 empty_world =
     Inr (- 12, \<lparr>heap = Map.empty, calls = [Zalloc], ext = 1\<rparr>)
   \<and> gpio_lower_half (stub_env True False) (Some 1) 3 2 0 empty_world =
     Inr (- 22,
          \<lparr>heap = Map.empty,
           calls = [Zalloc, Register 16 \<lparr>gp_pintype = 2, gp_ops = Some g_gplh_ops\<rparr> 0, Free 16],
           ext = 3\<rparr>)"
  using gpio_lower_half_errors [of "Some 1" 3 "stub_env False True" 2 empty_world 1 0 16 "- 22" 2]
    gpio_lower_half_errors [of "Some 1" 3 "stub_env True False" 2 empty_world 1 0 16 "- 22" 2]
  by (simp add: stub_defs ENOMEM_def)

subsection \<open>Reading and writing\<close>

text \<open>
  The two methods by themselves, on an instance whose expander reference is set, as both
  assert: a read makes the one call \<open>ioe_readpin\<close> and a write the one call
  \<open>ioe_writepin\<close>, on that expander and with the \<open>pin\<close> member as it is stored; the
  method returns what the expander returned, a failure as much as a success, and the
  store of instances is the same after the call.
\<close>

lemma gplh_read_write_with_ioe:
  assumes "heap w p = Some priv" and "ioe priv = Some dev"
    and "ioe_readpin env dev (pin priv) (ext w) = (r, x)"
    and "ioe_writepin env dev (pin priv) v (ext w) = (r', x')"
  shows "gplh_read env (Some p) w =
           Inr (r, w\<lparr>calls := calls w @ [ReadPin dev (pin priv)], ext := x\<rparr>)
       \<and> gplh_write env (Some p) v w =
           Inr (r', w\<lparr>calls := calls w @ [WritePin dev (pin priv) v], ext := x'\<rparr>)"
  using assms by (simp add: gplh_read_def gplh_write_def call_defs)

lemma gplh_read_write_with_ioe_example:
  "gplh_read (stub_env True True) (Some 16) (stub_world (stub_dev None None)) =
     Inr ((0, Some True),
          \<lparr>heap = [16 \<mapsto> stub_dev None None], calls = [ReadPin 1 3], ext = 1\<rparr>)
   \<and> gplh_write (stub_env True False) (Some 16) True (stub_world (stub_dev None None)) =
     Inr (- 5, \<lparr>heap = [16 \<mapsto> stub_dev None None], calls = [WritePin 1 3 True], ext = 1\<rparr>)"
  using gplh_read_write_with_ioe [of "stub_world (stub_dev None None)" 16 "stub_dev None None" 1
      "stub_env True True" "(0, Some True)" 1 True 0 1]
    gplh_read_write_with_ioe [of "stub_world (stub_dev None None)" 16 "stub_dev None None" 1
      "stub_env True False" "(- 5, None)" 1 True "- 5" 1]
  by (simp add: stub_defs)

text \<open>
  No instance the constructor registers has its expander reference set, so on such an
  instance neither method gets past its assertion, and neither calls the expander.
\<close>

lemma gplh_read_write_without_ioe:
  assumes "heap w p = Some priv" and "ioe priv = None"
  shows "gplh_read env (Some p) w = Inl AssertionFailed
       \<and> gplh_write env (Some p) v w = Inl AssertionFailed"
  using assms by (simp add: gplh_read_def gplh_write_def)

text \<open>
  C2. A read or a write is claimed to forward, to the expander, the pin index stored at
  construction, and to return the expander's result. Construct an instance on an
  eight-pin expander passed as \<open>Some 1\<close>, with pin 3, pin type 2 and minor 0, the
  allocation and the registration succeeding, and read or write through it at once: the
  constructor returns 0 and has stored pin 3, but the expander reference of the instance
  is \<^verbatim>\<open>NULL\<close>, so both methods fail the assertion \<^verbatim>\<open>priv->ioe != NULL\<close>; no pin
  index reaches the expander and no result of it is returned.
\<close>

theorem gplh_read_write_after_create:
  "(case gpio_lower_half (stub_env True True) (Some 1) 3 2 0 empty_world of
      Inl f \<Rightarrow> None
    | Inr (ret, w) \<Rightarrow>
        Some (ret, map_option pin (heap w 16), map_option ioe (heap w 16), calls w,
              gplh_read (stub_env True True) (Some 16) w,
              gplh_write (stub_env True True) (Some 16) True w))
   = Some (0, Some 3, Some None,
           [Zalloc, Register 16 \<lparr>gp_pintype = 2, gp_ops = Some g_gplh_ops\<rparr> 0],
           Inl AssertionFailed, Inl AssertionFailed)"
  by (simp add: ctor_defs call_defs stub_defs gplh_read_def gplh_write_def)

subsection \<open>Enabling and disabling the interrupt\<close>

text \<open>
  C3. On an instance with no callback attached (and the expander reference set, as the
  method asserts), enabling returns \<open>- EPERM\<close> and nothing else happens: no call is
  made, and the instance, with its callback and its handle, is as before.
\<close>

theorem gplh_enable_without_callback:
  assumes "heap w p = Some priv" and "ioe priv = Some dev" and "callback priv = None"
  shows "gplh_enable env (Some p) True w = Inr (- EPERM, w)"
  using assms by (simp add: gplh_enable_def)

theorem gplh_enable_without_callback_witness:
  "heap (stub_world (stub_dev None None)) 16 = Some (stub_dev None None)
   \<and> ioe (stub_dev None None) = Some 1
   \<and> callback (stub_dev None None) = None
   \<and> gplh_enable (stub_env True True) (Some 16) True (stub_world (stub_dev None None))
       = Inr (- 1, stub_world (stub_dev None None))"
  using gplh_enable_without_callback [where w = "stub_world (stub_dev None None)" and p = 16
      and priv = "stub_dev None None" and dev = 1 and env = "stub_env True True"]
  by (simp add: stub_defs EPERM_def)

text \<open>
  C4. On a detached instance with a callback, whose pin is one of the expander's pins
  (the constructor asserts \<open>pin < CONFIG_IOEXPANDER_NPINS\<close>, and \<^verbatim>\<open>ioe_pinset_t\<close> has
  that many bits), enabling makes exactly one call, \<open>ioe_attach\<close>, with a pin set whose
  only bit is the bit \<open>pin\<close>, with the handler of this file and with the instance as
  argument. The handle returned is stored. A non-null handle gives \<open>OK\<close>; a null one
  gives \<open>- EIO\<close>, and the instance then still has no handle.
\<close>

theorem gplh_enable_attaches:
  fixes env :: "('w::len word, 'x) env"
  assumes "heap w p = Some priv" and "ioe priv = Some dev"
    and "callback priv = Some cb" and "handle priv = None"
    and "unat (pin priv) < CONFIG_IOEXPANDER_NPINS env"
    and "CONFIG_IOEXPANDER_NPINS env \<le> LENGTH('w)"
    and "pinset = push_bit (unat (pin priv)) 1"
    and "ioe_attach env dev pinset Gplh_handler p (ext w) = (h, x)"
  shows "gplh_enable env (Some p) True w =
           Inr (if h = None then - EIO else OK,
                w\<lparr>heap := (heap w)(p \<mapsto> priv\<lparr>handle := h\<rparr>),
                  calls := calls w @ [Attach dev pinset Gplh_handler p],
                  ext := x\<rparr>)
         \<and> (\<forall>n. bit pinset n \<longleftrightarrow> n = unat (pin priv))"
proof
  show "gplh_enable env (Some p) True w =
           Inr (if h = None then - EIO else OK,
                w\<lparr>heap := (heap w)(p \<mapsto> priv\<lparr>handle := h\<rparr>),
                  calls := calls w @ [Attach dev pinset Gplh_handler p],
                  ext := x\<rparr>)"
    using assms(1-4,8) unfolding assms(7)
    by (simp add: gplh_enable_def call_defs Let_def del: push_bit_of_1)
  from assms(5,6) have "unat (pin priv) < LENGTH('w)"
    by simp
  then show "\<forall>n. bit pinset n \<longleftrightarrow> n = unat (pin priv)"
    unfolding assms(7) by (simp only: pinset_single_bit simp_thms)
qed

theorem gplh_enable_attaches_witness:
  "gplh_enable (stub_env True True) (Some 16) True (stub_world (stub_dev None (Some 4))) =
     Inr (0,
          \<lparr>heap = [16 \<mapsto> stub_dev (Some 7) (Some 4)],
           calls = [Attach 1 8 Gplh_handler 16], ext = 1\<rparr>)
   \<and> gplh_enable (stub_env True False) (Some 16) True (stub_world (stub_dev None (Some 4))) =
     Inr (- 5,
          \<lparr>heap = [16 \<mapsto> stub_dev None (Some 4)],
           calls = [Attach 1 8 Gplh_handler 16], ext = 1\<rparr>)
   \<and> bit (8 :: 8 word) 3"
  using gplh_enable_attaches [where w = "stub_world (stub_dev None (Some 4))" and p = 16
      and priv = "stub_dev None (Some 4)" and dev = 1 and cb = 4
      and env = "stub_env True True" and pinset = 8 and h = "Some 7" and x = 1]
    gplh_enable_attaches [where w = "stub_world (stub_dev None (Some 4))" and p = 16
      and priv = "stub_dev None (Some 4)" and dev = 1 and cb = 4
      and env = "stub_env True False" and pinset = 8 and h = None and x = 1]
  by (simp add: stub_defs OK_def EIO_def)

text \<open>
  C5. Enabling is idempotent in both directions, on every instance that holds a handle
  only with a callback, which is the invariant \<open>gplh_inv\<close> of every state the interface
  reaches (and with the expander reference set, as the method asserts). Enabling an
  attached instance returns \<open>OK\<close> and leaves everything as it was, so it makes no
  attach call and changes no state; disabling a detached instance returns \<open>OK\<close> and
  leaves everything as it was, so it makes no detach call and changes no state.
\<close>

theorem gplh_enable_idempotent:
  assumes "heap w p = Some priv" and "ioe priv = Some dev" and "gplh_inv priv"
  shows "(handle priv \<noteq> None \<longrightarrow> gplh_enable env (Some p) True w = Inr (OK, w))
       \<and> (handle priv = None \<longrightarrow> gplh_enable env (Some p) False w = Inr (OK, w))"
  using assms by (auto simp add: gplh_enable_def gplh_inv_def)

theorem gplh_enable_idempotent_witness:
  "gplh_inv (stub_dev (Some 7) (Some 4))
   \<and> handle (stub_dev (Some 7) (Some 4)) \<noteq> None
   \<and> gplh_enable (stub_env True True) (Some 16) True (stub_world (stub_dev (Some 7) (Some 4)))
       = Inr (0, stub_world (stub_dev (Some 7) (Some 4)))
   \<and> gplh_inv (stub_dev None None)
   \<and> handle (stub_dev None None) = None
   \<and> gplh_enable (stub_env True True) (Some 16) False (stub_world (stub_dev None None))
       = Inr (0, stub_world (stub_dev None None))"
  using gplh_enable_idempotent [where w = "stub_world (stub_dev (Some 7) (Some 4))" and p = 16
      and priv = "stub_dev (Some 7) (Some 4)" and dev = 1 and env = "stub_env True True"]
    gplh_enable_idempotent [where w = "stub_world (stub_dev None None)" and p = 16
      and priv = "stub_dev None None" and dev = 1 and env = "stub_env True True"]
  by (simp add: stub_defs OK_def gplh_inv_def)

text \<open>
  C6. Disabling an attached instance makes the one call \<open>ioe_detach\<close> with the stored
  handle, clears the handle whatever that call returned, and returns what it returned:
  the negative status of a failed detach, a non-negative one otherwise.
\<close>

theorem gplh_disable_detaches:
  assumes "heap w p = Some priv" and "ioe priv = Some dev" and "handle priv = Some h"
    and "ioe_detach env dev h (ext w) = (ret, x)"
  shows "gplh_enable env (Some p) False w =
           Inr (ret,
                w\<lparr>heap := (heap w)(p \<mapsto> priv\<lparr>handle := None\<rparr>),
                  calls := calls w @ [Detach dev h],
                  ext := x\<rparr>)"
  using assms by (simp add: gplh_enable_def call_defs)

theorem gplh_disable_detaches_witness:
  "gplh_enable (stub_env True True) (Some 16) False (stub_world (stub_dev (Some 7) (Some 4))) =
     Inr (0, \<lparr>heap = [16 \<mapsto> stub_dev None (Some 4)], calls = [Detach 1 7], ext = 1\<rparr>)
   \<and> gplh_enable (stub_env True False) (Some 16) False (stub_world (stub_dev (Some 7) (Some 4))) =
     Inr (- 5, \<lparr>heap = [16 \<mapsto> stub_dev None (Some 4)], calls = [Detach 1 7], ext = 1\<rparr>)"
  using gplh_disable_detaches [where w = "stub_world (stub_dev (Some 7) (Some 4))" and p = 16
      and priv = "stub_dev (Some 7) (Some 4)" and dev = 1 and h = 7
      and env = "stub_env True True" and ret = 0 and x = 1]
    gplh_disable_detaches [where w = "stub_world (stub_dev (Some 7) (Some 4))" and p = 16
      and priv = "stub_dev (Some 7) (Some 4)" and dev = 1 and h = 7
      and env = "stub_env True False" and ret = "- 5" and x = 1]
  by (simp add: stub_defs)

subsection \<open>Attaching a callback\<close>

text \<open>
  C7. Attaching any callback, the null one included, to an instance whose expander
  reference is set always returns \<open>OK\<close>. If the instance has a handle, and only then, the
  one call \<open>ioe_detach\<close> is made with it and the handle is cleared, whatever the call
  returned; the callback given is then stored over the previous one. A second attach
  right after makes no call at all and leaves its own callback stored; when the instance
  had no handle to begin with, the two attaches together make no call.
\<close>

theorem gplh_attach_replaces:
  assumes "heap w p = Some priv" and "ioe priv = Some dev"
  shows "gplh_attach env (Some p) cb w =
           Inr (OK,
                case handle priv of
                  None \<Rightarrow> w\<lparr>heap := (heap w)(p \<mapsto> priv\<lparr>callback := cb\<rparr>)\<rparr>
                | Some h \<Rightarrow>
                    w\<lparr>heap := (heap w)(p \<mapsto> priv\<lparr>handle := None, callback := cb\<rparr>),
                      calls := calls w @ [Detach dev h],
                      ext := snd (ioe_detach env dev h (ext w))\<rparr>)
       \<and> (\<exists>w1 w2. gplh_attach env (Some p) cb w = Inr (OK, w1)
             \<and> gplh_attach env (Some p) cb2 w1 = Inr (OK, w2)
             \<and> calls w2 = calls w1
             \<and> (handle priv = None \<longrightarrow> calls w2 = calls w)
             \<and> heap w2 p = Some (priv\<lparr>handle := None, callback := cb2\<rparr>))"
  using assms by (simp add: gplh_attach_def call_defs split: option.splits prod.splits)

theorem gplh_attach_replaces_witness:
  "gplh_attach (stub_env True False) (Some 16) None (stub_world (stub_dev (Some 7) (Some 4))) =
     Inr (0, \<lparr>heap = [16 \<mapsto> stub_dev None None], calls = [Detach 1 7], ext = 1\<rparr>)
   \<and> handle (stub_dev None (Some 4)) = None
   \<and> gplh_attach (stub_env True True) (Some 16) (Some 5) (stub_world (stub_dev None (Some 4))) =
     Inr (0, \<lparr>heap = [16 \<mapsto> stub_dev None (Some 5)], calls = [], ext = 0\<rparr>)
   \<and> gplh_attach (stub_env True True) (Some 16) (Some 6)
         \<lparr>heap = [16 \<mapsto> stub_dev None (Some 5)], calls = [], ext = 0\<rparr> =
     Inr (0, \<lparr>heap = [16 \<mapsto> stub_dev None (Some 6)], calls = [], ext = 0\<rparr>)"
  using gplh_attach_replaces [where w = "stub_world (stub_dev (Some 7) (Some 4))" and p = 16
      and priv = "stub_dev (Some 7) (Some 4)" and dev = 1 and env = "stub_env True False"
      and cb = None and ?cb2.0 = None]
    gplh_attach_replaces [where w = "stub_world (stub_dev None (Some 4))" and p = 16
      and priv = "stub_dev None (Some 4)" and dev = 1 and env = "stub_env True True"
      and cb = "Some 5" and ?cb2.0 = "Some 6"]
  by (simp add: stub_defs OK_def gplh_attach_def call_defs)

subsection \<open>The interrupt handler\<close>

text \<open>
  C9. Called by the expander with an instance that has a callback as argument, the
  handler makes one call: the stored callback, on the address of the instance, which is
  the address of its embedded \<open>gpio\<close> member. The expander and the pin set it was given
  do not enter the call. The handler returns what the callback returned.
\<close>

theorem gplh_handler_forwards:
  assumes "heap w p = Some priv" and "callback priv = Some cb"
    and "pin_interrupt env cb p (ext w) = (ret, x)"
  shows "gplh_handler env dev pinset (Some p) w =
           Inr (ret, w\<lparr>calls := calls w @ [Callback cb p], ext := x\<rparr>)"
  using assms by (simp add: gplh_handler_def call_defs)

theorem gplh_handler_forwards_witness:
  "gplh_handler (stub_env True True) (Some 1) 8 (Some 16)
       (stub_world (stub_dev (Some 7) (Some 4))) =
     Inr (42, \<lparr>heap = [16 \<mapsto> stub_dev (Some 7) (Some 4)], calls = [Callback 4 16], ext = 1\<rparr>)"
  using gplh_handler_forwards [where w = "stub_world (stub_dev (Some 7) (Some 4))" and p = 16
      and priv = "stub_dev (Some 7) (Some 4)" and cb = 4 and env = "stub_env True True"
      and ret = 42 and x = 1 and dev = "Some 1" and pinset = 8]
  by (simp add: stub_defs)

subsection \<open>A handle is never held without a callback\<close>

lemma gpio_call_inv:
  assumes "heap w p = Some d" and "gplh_inv d" and "gpio_call env p req w = Inr w'"
  shows "\<exists>d'. heap w' p = Some d' \<and> gplh_inv d'"
proof (cases req)
  case Read
  with assms show ?thesis
    by (auto simp add: gplh_read_def status_dropped_def call_defs split: option.splits prod.splits)
next
  case (Write v)
  with assms show ?thesis
    by (auto simp add: gplh_write_def status_dropped_def call_defs split: option.splits prod.splits)
next
  case (AttachCallback cb)
  with assms show ?thesis
    by (auto simp add: gplh_attach_def status_dropped_def call_defs gplh_inv_def
        split: option.splits prod.splits)
next
  case (Enable en)
  with assms show ?thesis
    by (auto simp add: gplh_enable_def status_dropped_def call_defs gplh_inv_def Let_def
        split: option.splits prod.splits if_splits)
qed

lemma gpio_run_inv:
  "heap w p = Some d \<Longrightarrow> gplh_inv d \<Longrightarrow> gpio_run env p reqs w = Inr w'
     \<Longrightarrow> \<exists>d'. heap w' p = Some d' \<and> gplh_inv d'"
proof (induction reqs arbitrary: w d)
  case Nil
  then show ?case by auto
next
  case (Cons req reqs)
  from Cons.prems(3) obtain w1 where step: "gpio_call env p req w = Inr w1"
    and rest: "gpio_run env p reqs w1 = Inr w'"
    by (auto split: sum.splits)
  from gpio_call_inv [OF Cons.prems(1,2) step]
  obtain d1 where "heap w1 p = Some d1" and "gplh_inv d1" by blast
  then show ?case using Cons.IH rest by blast
qed

text \<open>
  The instance the constructor registers has neither handle nor callback, so the
  invariant holds of it.
\<close>

lemma gpio_lower_half_inv:
  assumes "gpio_lower_half env ioe_p pin_n pintype minor w = Inr (ret, w')"
    and "zalloc env (ext w) = (Some p, x)" and "0 \<le> ret"
  shows "\<exists>d. heap w' p = Some d \<and> handle d = None \<and> callback d = None \<and> gplh_inv d"
  using assms
  by (auto simp add: ctor_defs call_defs gplh_inv_def split: if_splits prod.splits)

text \<open>
  C10. The invariant: a handle only with a callback. It holds of the zeroed instance that
  a successful call of the constructor leaves registered, which has neither. And from an
  instance of which it holds, after any sequence of reads, writes, attaches and enables
  on the instance that runs to its end, it holds again; whenever the instance then holds
  a handle, a call of the handler by the expander passes the handler's assertion and
  forwards to the stored callback.
\<close>

theorem gplh_inv_reachable:
  fixes env :: "('w::len word, 'x) env"
  shows "(gpio_lower_half env ioe_p pin_n pintype minor w0 = Inr (ret, w1)
            \<and> 0 \<le> ret \<and> zalloc env (ext w0) = (Some q, x)
          \<longrightarrow> (\<exists>d. heap w1 q = Some d \<and> handle d = None \<and> callback d = None \<and> gplh_inv d))
       \<and> (heap w p = Some d0 \<and> gplh_inv d0 \<and> gpio_run env p reqs w = Inr w'
          \<longrightarrow> (\<exists>d. heap w' p = Some d \<and> gplh_inv d
                 \<and> (handle d \<noteq> None \<longrightarrow>
                      (\<exists>cb. callback d = Some cb
                         \<and> (\<forall>dev pinset. gplh_handler env dev pinset (Some p) w'
                                           = Inr (invoke_callback env cb p w'))))))"
proof (intro conjI impI)
  assume "gpio_lower_half env ioe_p pin_n pintype minor w0 = Inr (ret, w1)
            \<and> 0 \<le> ret \<and> zalloc env (ext w0) = (Some q, x)"
  then have "gpio_lower_half env ioe_p pin_n pintype minor w0 = Inr (ret, w1)"
    and "zalloc env (ext w0) = (Some q, x)" and "0 \<le> ret"
    by simp_all
  then show "\<exists>d. heap w1 q = Some d \<and> handle d = None \<and> callback d = None \<and> gplh_inv d"
    by (rule gpio_lower_half_inv)
next
  assume run: "heap w p = Some d0 \<and> gplh_inv d0 \<and> gpio_run env p reqs w = Inr w'"
  then have "heap w p = Some d0" and "gplh_inv d0" and "gpio_run env p reqs w = Inr w'"
    by simp_all
  then have "\<exists>d. heap w' p = Some d \<and> gplh_inv d"
    by (rule gpio_run_inv)
  then obtain d where d: "heap w' p = Some d" "gplh_inv d"
    by blast
  then show "\<exists>d. heap w' p = Some d \<and> gplh_inv d
               \<and> (handle d \<noteq> None \<longrightarrow>
                    (\<exists>cb. callback d = Some cb
                       \<and> (\<forall>dev pinset. gplh_handler env dev pinset (Some p) w'
                                         = Inr (invoke_callback env cb p w'))))"
    by (auto simp add: gplh_inv_def gplh_handler_def)
qed

theorem gplh_inv_reachable_witness:
  "gpio_lower_half (stub_env True True) (Some 1) 3 2 0 empty_world =
       Inr (0,
            \<lparr>heap = [16 \<mapsto> \<lparr>gpio = \<lparr>gp_pintype = 2, gp_ops = Some g_gplh_ops\<rparr>,
                             pin = 3, ioe = None, handle = None, callback = None\<rparr>],
             calls = [Zalloc, Register 16 \<lparr>gp_pintype = 2, gp_ops = Some g_gplh_ops\<rparr> 0],
             ext = 2\<rparr>)
   \<and> handle (stub_dev None None) = None
   \<and> gpio_run (stub_env True True) 16 [AttachCallback (Some 4), Enable True, Read, Write True]
         (stub_world (stub_dev None None)) =
       Inr \<lparr>heap = [16 \<mapsto> stub_dev (Some 7) (Some 4)],
            calls = [Attach 1 8 Gplh_handler 16, ReadPin 1 3, WritePin 1 3 True], ext = 3\<rparr>
   \<and> handle (stub_dev (Some 7) (Some 4)) = Some 7
   \<and> callback (stub_dev (Some 7) (Some 4)) = Some 4
   \<and> gplh_handler (stub_env True True) (Some 1) 8 (Some 16)
         \<lparr>heap = [16 \<mapsto> stub_dev (Some 7) (Some 4)],
          calls = [Attach 1 8 Gplh_handler 16, ReadPin 1 3, WritePin 1 3 True], ext = 3\<rparr> =
       Inr (42,
            \<lparr>heap = [16 \<mapsto> stub_dev (Some 7) (Some 4)],
             calls = [Attach 1 8 Gplh_handler 16, ReadPin 1 3, WritePin 1 3 True, Callback 4 16],
             ext = 4\<rparr>)"
  using gplh_inv_reachable [where env = "stub_env True True" and ioe_p = "Some 1"
      and pin_n = 3 and pintype = 2 and minor = 0 and ?w0.0 = empty_world and ret = 0
      and ?w1.0 = "\<lparr>heap = [16 \<mapsto> \<lparr>gpio = \<lparr>gp_pintype = 2, gp_ops = Some g_gplh_ops\<rparr>,
                             pin = 3, ioe = None, handle = None, callback = None\<rparr>],
             calls = [Zalloc, Register 16 \<lparr>gp_pintype = 2, gp_ops = Some g_gplh_ops\<rparr> 0],
             ext = 2\<rparr>"
      and q = 16 and x = 1
      and w = "stub_world (stub_dev None None)" and p = 16
      and ?d0.0 = "stub_dev None None"
      and reqs = "[AttachCallback (Some 4), Enable True, Read, Write True]"
      and w' = "\<lparr>heap = [16 \<mapsto> stub_dev (Some 7) (Some 4)],
                 calls = [Attach 1 8 Gplh_handler 16, ReadPin 1 3, WritePin 1 3 True],
                 ext = 3\<rparr>"]
  by (simp add: stub_defs gplh_inv_def status_dropped_def gplh_read_def gplh_write_def
      gplh_attach_def gplh_enable_def gplh_handler_def call_defs ctor_defs OK_def)

end
